theory Spec2Isabelle
  imports Complex_Main
begin

section \<open>Python values\<close>

text \<open>
  The program is \<^verbatim>\<open>fraud_detection_app.py\<close>. A Python \<^verbatim>\<open>str\<close> is a sequence of
  Unicode code points: a \<open>pystr\<close> is the list of them, each a natural number. The
  literals of the program and of the examples are ASCII; \<open>str\<close> turns such a literal
  into its code points.
\<close>

type_synonym pystr = "nat list"

definition str :: "string \<Rightarrow> pystr" where
  "str s = map of_char s"

datatype py_error =
    ValueError
  | TypeError
  | AttributeError
  | OverflowError
  | KeyError string

text \<open>
  A Python \<^verbatim>\<open>float\<close>: a finite double, read as the real number it denotes (every
  double is a real; the two zeros are not told apart), an infinity or a NaN.
\<close>

datatype pyfloat = Fin real | PosInf | NegInf | NaN

text \<open>\<^verbatim>\<open>x > k\<close> and \<^verbatim>\<open>x < k\<close> for a float \<^verbatim>\<open>x\<close> and an integer literal \<^verbatim>\<open>k\<close>:
  exact comparisons, False on NaN.\<close>

fun float_gt :: "pyfloat \<Rightarrow> real \<Rightarrow> bool" where
  "float_gt (Fin x) k = (k < x)"
| "float_gt PosInf k = True"
| "float_gt NegInf k = False"
| "float_gt NaN k = False"

fun float_lt :: "pyfloat \<Rightarrow> real \<Rightarrow> bool" where
  "float_lt (Fin x) k = (x < k)"
| "float_lt PosInf k = False"
| "float_lt NegInf k = True"
| "float_lt NaN k = False"

subsection \<open>Characters\<close>

text \<open>
  What \<^verbatim>\<open>str.isdigit\<close> and \<^verbatim>\<open>int\<close> need to know of a character is its
  Numeric_Type in the Unicode Character Database: a decimal digit with its value
  (\<^verbatim>\<open>0\<close> to \<^verbatim>\<open>9\<close>, and the digits of other scripts, such as the Arabic-Indic and
  the fullwidth ones), a character of type Digit (superscript, subscript and
  circled digits), or neither.
\<close>

datatype numeric_type = Decimal int | Digit | No_digit

text \<open>
  The database is not part of the program. Its entries below 256 are written out:
  \<^verbatim>\<open>0\<close> to \<^verbatim>\<open>9\<close> (48 to 57) are the decimal digits, the superscripts two, three
  and one (178, 179, 185) are of type Digit. From 256 on the table is the parameter
  \<open>ucd\<close>.
\<close>

definition numeric_type_of :: "(nat \<Rightarrow> numeric_type) \<Rightarrow> nat \<Rightarrow> numeric_type" where
  "numeric_type_of ucd c =
     (if 48 \<le> c \<and> c \<le> 57 then Decimal (int c - 48)
      else if c = 178 \<or> c = 179 \<or> c = 185 then Digit
      else if c < 256 then No_digit
      else ucd c)"

text \<open>\<^verbatim>\<open>str.isdigit\<close> on one character: true for the types Decimal and Digit.\<close>

definition isdigit_char :: "(nat \<Rightarrow> numeric_type) \<Rightarrow> nat \<Rightarrow> bool" where
  "isdigit_char ucd c = (numeric_type_of ucd c \<noteq> No_digit)"

text \<open>\<^verbatim>\<open>str.isdigit\<close>: every character is a digit and there is at least one.\<close>

definition isdigit :: "(nat \<Rightarrow> numeric_type) \<Rightarrow> pystr \<Rightarrow> bool" where
  "isdigit ucd s = (s \<noteq> [] \<and> list_all (isdigit_char ucd) s)"

text \<open>
  \<^verbatim>\<open>int(digit)\<close> on a one-character string: the value of a decimal digit of any
  script; \<^verbatim>\<open>ValueError\<close> on anything else, the characters of type Digit included.
\<close>

definition int_char :: "(nat \<Rightarrow> numeric_type) \<Rightarrow> nat \<Rightarrow> py_error + int" where
  "int_char ucd c =
     (case numeric_type_of ucd c of
        Decimal d \<Rightarrow> Inr d
      | Digit \<Rightarrow> Inl ValueError
      | No_digit \<Rightarrow> Inl ValueError)"

section \<open>Step 3: the Luhn check\<close>

text \<open>
  The body of the \<^verbatim>\<open>for idx, digit in enumerate(reverse_digits)\<close> loop of
  \<^verbatim>\<open>luhn_algorithm\<close>, with the running \<^verbatim>\<open>idx\<close> and \<^verbatim>\<open>total\<close> (written \<open>total'\<close>).
\<close>

fun luhn_loop :: "(nat \<Rightarrow> numeric_type) \<Rightarrow> nat \<Rightarrow> int \<Rightarrow> pystr \<Rightarrow> py_error + int" where
  "luhn_loop ucd idx total' [] = Inr total'"
| "luhn_loop ucd idx total' (digit # rest) =
     (case int_char ucd digit of
        Inl e \<Rightarrow> Inl e
      | Inr n \<Rightarrow>
          (let n = (if idx mod 2 = 1
                    then (let n = n * 2 in if n > 9 then n - 9 else n)
                    else n)
           in luhn_loop ucd (Suc idx) (total' + n) rest))"

text \<open>\<^verbatim>\<open>luhn_algorithm\<close>; \<^verbatim>\<open>replace(' ', '')\<close> removes the code point 32.\<close>

definition luhn_algorithm :: "(nat \<Rightarrow> numeric_type) \<Rightarrow> pystr \<Rightarrow> py_error + bool" where
  "luhn_algorithm ucd card_number0 =
     (let card_number = filter (\<lambda>c. c \<noteq> 32) card_number0
      in if \<not> isdigit ucd card_number then Inr False
         else (case luhn_loop ucd 0 0 (rev card_number) of
                 Inl e \<Rightarrow> Inl e
               | Inr total' \<Rightarrow> Inr (total' mod 10 = 0)))"

section \<open>Step 5: the scoring endpoint\<close>

text \<open>
  \<^verbatim>\<open>request.json\<close> is a decoded JSON document. Integers are Python's unbounded
  \<^verbatim>\<open>int\<close>; a \<open>PDict\<close> lists the entries of a \<^verbatim>\<open>dict\<close>, each key once.
\<close>

datatype pyval =
    PNone
  | PBool bool
  | PInt int
  | PFloat pyfloat
  | PStr pystr
  | PList "pyval list"
  | PDict "(pystr \<times> pyval) list"

text \<open>\<^verbatim>\<open>data.get(key)\<close>: only a \<^verbatim>\<open>dict\<close> has the method; a missing key gives
  \<^verbatim>\<open>None\<close>.\<close>

fun dict_get :: "pyval \<Rightarrow> pystr \<Rightarrow> py_error + pyval" where
  "dict_get (PDict kvs) key =
     Inr (case map_of kvs key of None \<Rightarrow> PNone | Some v \<Rightarrow> v)"
| "dict_get _ key = Inl AttributeError"

text \<open>\<^verbatim>\<open>int.bit_length\<close> of a natural number.\<close>

fun bit_length :: "nat \<Rightarrow> nat" where
  "bit_length n = (if n = 0 then 0 else Suc (bit_length (n div 2)))"

declare bit_length.simps [simp del]

text \<open>
  \<^verbatim>\<open>float(n)\<close> for an \<^verbatim>\<open>int\<close>: exact up to 53 bits, beyond that rounded to 53 bits,
  ties to even; \<^verbatim>\<open>OverflowError\<close> when the rounded value is \<open>2 ^ 1024\<close> or more.
\<close>

definition float_of_int :: "int \<Rightarrow> py_error + pyfloat" where
  "float_of_int n =
     (let m = nat \<bar>n\<bar>; k = bit_length m
      in if k \<le> 53 then Inr (Fin (of_int n))
         else
           (let sh = k - 53;
                q = m div 2 ^ sh;
                r = m mod 2 ^ sh;
                half = 2 ^ (sh - 1);
                q = (if half < r \<or> (r = half \<and> odd q) then q + 1 else q);
                v = q * 2 ^ sh
            in if 2 ^ 1024 \<le> v then Inl OverflowError
               else Inr (Fin (of_int (sgn n * int v)))))"

text \<open>
  \<^verbatim>\<open>float(x)\<close>. What \<^verbatim>\<open>float\<close> makes of a \<^verbatim>\<open>str\<close> is the interpreter's parser,
  taken as the parameter \<open>float_str\<close>: the double a literal denotes, \<open>None\<close> where
  \<^verbatim>\<open>float\<close> raises \<^verbatim>\<open>ValueError\<close>.
\<close>

fun py_float :: "(pystr \<rightharpoonup> pyfloat) \<Rightarrow> pyval \<Rightarrow> py_error + pyfloat" where
  "py_float float_str PNone = Inl TypeError"
| "py_float float_str (PBool b) = Inr (Fin (if b then 1 else 0))"
| "py_float float_str (PInt n) = float_of_int n"
| "py_float float_str (PFloat x) = Inr x"
| "py_float float_str (PStr s) =
     (case float_str s of None \<Rightarrow> Inl ValueError | Some x \<Rightarrow> Inr x)"
| "py_float float_str (PList xs) = Inl TypeError"
| "py_float float_str (PDict kvs) = Inl TypeError"

text \<open>\<^verbatim>\<open>luhn_algorithm(v)\<close> on any value: only a \<^verbatim>\<open>str\<close> has \<^verbatim>\<open>replace\<close>.\<close>

fun luhn_call :: "(nat \<Rightarrow> numeric_type) \<Rightarrow> pyval \<Rightarrow> py_error + bool" where
  "luhn_call ucd (PStr s) = luhn_algorithm ucd s"
| "luhn_call ucd _ = Inl AttributeError"

text \<open>
  The view function \<^verbatim>\<open>detect_fraud\<close>, from the decoded request body to the
  \<^verbatim>\<open>dict\<close> handed to \<^verbatim>\<open>jsonify\<close>, or the exception that leaves the view. The
  keys of the response are the five literals of the program.
\<close>

definition detect_fraud ::
  "(nat \<Rightarrow> numeric_type) \<Rightarrow> (pystr \<rightharpoonup> pyfloat) \<Rightarrow> pyval \<Rightarrow>
     py_error + (string \<times> pyval) list" where
  "detect_fraud ucd float_str data =
     (case dict_get data (str ''CardNumber'') of
        Inl e \<Rightarrow> Inl e
      | Inr card_number \<Rightarrow>
     (case dict_get data (str ''Amount'') of
        Inl e \<Rightarrow> Inl e
      | Inr amount_field \<Rightarrow>
     (case py_float float_str amount_field of
        Inl e \<Rightarrow> Inl e
      | Inr amount \<Rightarrow>
     (case luhn_call ucd card_number of
        Inl e \<Rightarrow> Inl e
      | Inr luhn_valid \<Rightarrow>
          (let high_amount = float_gt amount 1000;
               is_fraudulent = (luhn_valid \<and> high_amount)
           in Inr [(''CardNumber'', card_number),
                   (''Amount'', PFloat amount),
                   (''LuhnValid'', PBool luhn_valid),
                   (''HighAmount'', PBool high_amount),
                   (''Fraudulent'', PBool is_fraudulent)])))))"

text \<open>
  What Flask makes of the view's outcome (the application runs with
  \<^verbatim>\<open>debug=False\<close> and registers no error handler): the JSON body with status 200,
  or, for an exception that is not an HTTP exception, the 500 response.
\<close>

datatype http_response =
    Json_response "(string \<times> pyval) list"
  | Internal_server_error

fun status_code :: "http_response \<Rightarrow> nat" where
  "status_code (Json_response body) = 200"
| "status_code Internal_server_error = 500"

fun flask_dispatch :: "py_error + (string \<times> pyval) list \<Rightarrow> http_response" where
  "flask_dispatch (Inr body) = Json_response body"
| "flask_dispatch (Inl e) = Internal_server_error"

definition is_client_error :: "http_response \<Rightarrow> bool" where
  "is_client_error r = (400 \<le> status_code r \<and> status_code r < 500)"

section \<open>Steps 3 and 4 on a batch\<close>

text \<open>
  A \<^verbatim>\<open>DataFrame\<close> as \<^verbatim>\<open>preprocess_data\<close> hands it on: each column the program
  names is present (\<open>Some\<close>, the list of its cells in row order) or absent (\<open>None\<close>).
  \<open>CardNumber\<close> holds Python objects, \<open>Amount\<close> and \<open>TimeGap\<close> are \<^verbatim>\<open>float64\<close>,
  \<open>Timestamp\<close> is \<^verbatim>\<open>datetime64[ns]\<close> (nanoseconds since the epoch, \<open>None\<close> for
  \<^verbatim>\<open>NaT\<close>), the flag columns are \<^verbatim>\<open>bool\<close>; \<open>others\<close> are the further columns of the
  frame. Columns of other dtypes under these names are outside the model.
\<close>

record frame =
  CardNumber :: "pyval list option"
  Amount :: "pyfloat list option"
  Timestamp :: "int option list option"
  LuhnValid :: "bool list option"
  HighAmount :: "bool list option"
  TimeGap :: "pyfloat list option"
  SuspiciousTime :: "bool list option"
  Fraudulent :: "bool list option"
  Anomaly :: "bool list option"
  others :: "(string \<times> pyval list) list"

text \<open>\<^verbatim>\<open>df[name]\<close>: \<^verbatim>\<open>KeyError\<close> when the frame has no such column.\<close>

definition getitem :: "'a option \<Rightarrow> string \<Rightarrow> py_error + 'a" where
  "getitem col name = (case col of None \<Rightarrow> Inl (KeyError name) | Some xs \<Rightarrow> Inr xs)"

text \<open>\<^verbatim>\<open>df['CardNumber'].apply(luhn_algorithm)\<close>: the cells in row order, the first
  exception ends the call.\<close>

fun apply_luhn :: "(nat \<Rightarrow> numeric_type) \<Rightarrow> pyval list \<Rightarrow> py_error + bool list" where
  "apply_luhn ucd [] = Inr []"
| "apply_luhn ucd (x # xs) =
     (case luhn_call ucd x of
        Inl e \<Rightarrow> Inl e
      | Inr b \<Rightarrow>
          (case apply_luhn ucd xs of Inl e \<Rightarrow> Inl e | Inr bs \<Rightarrow> Inr (b # bs)))"

text \<open>
  \<^verbatim>\<open>Series.diff()\<close> on timestamps: \<^verbatim>\<open>NaT\<close> in the first row, then each row minus
  the row before it, \<^verbatim>\<open>NaT\<close> where either is \<^verbatim>\<open>NaT\<close>. The differences are taken
  in unbounded integers. pandas subtracts in 64-bit integers and raises
  \<^verbatim>\<open>OverflowError\<close> when a difference does not fit: the model is the library on
  batches whose neighbouring timestamps are less than \<open>2 ^ 63\<close> nanoseconds (about 292
  years) apart, and returns where the library raises on the others.
\<close>

fun timedelta :: "int option \<Rightarrow> int option \<Rightarrow> int option" where
  "timedelta (Some cur) (Some prev) = Some (cur - prev)"
| "timedelta _ _ = None"

fun diff :: "int option list \<Rightarrow> int option list" where
  "diff [] = []"
| "diff (t # ts) = None # map2 timedelta ts (t # ts)"

text \<open>
  \<^verbatim>\<open>.dt.total_seconds()\<close>: nanoseconds to seconds, \<^verbatim>\<open>NaN\<close> for \<^verbatim>\<open>NaT\<close>. The
  quotient is taken exactly; the double pandas stores lies on the same side of 60.
\<close>

fun total_seconds :: "int option \<Rightarrow> pyfloat" where
  "total_seconds None = NaN"
| "total_seconds (Some ns) = Fin (real_of_int ns / 1000000000)"

text \<open>
  \<^verbatim>\<open>rule_based_detection\<close>. The three \<^verbatim>\<open>if ... in df.columns\<close> blocks, then line 97,
  which reads \<open>LuhnValid\<close>, \<open>HighAmount\<close> and \<open>SuspiciousTime\<close> in this order whether
  or not the blocks above have written them. The frame is updated in place; on an
  exception the model keeps the exception only.
\<close>

definition rule_based_detection ::
  "(nat \<Rightarrow> numeric_type) \<Rightarrow> frame \<Rightarrow> py_error + frame" where
  "rule_based_detection ucd df0 =
     (case (case CardNumber df0 of
              None \<Rightarrow> Inr df0
            | Some cards \<Rightarrow>
                (case apply_luhn ucd cards of
                   Inl e \<Rightarrow> Inl e
                 | Inr valid \<Rightarrow> Inr (df0\<lparr>LuhnValid := Some valid\<rparr>))) of
        Inl e \<Rightarrow> Inl e
      | Inr df1 \<Rightarrow>
          (let df2 = (case Amount df1 of
                        None \<Rightarrow> df1
                      | Some amounts \<Rightarrow>
                          df1\<lparr>HighAmount := Some (map (\<lambda>a. float_gt a 1000) amounts)\<rparr>);
               df3 = (case Timestamp df2 of
                        None \<Rightarrow> df2
                      | Some stamps \<Rightarrow>
                          (let gaps = map total_seconds (diff stamps)
                           in df2\<lparr>TimeGap := Some gaps,
                                  SuspiciousTime := Some (map (\<lambda>g. float_lt g 60) gaps)\<rparr>))
           in (case getitem (LuhnValid df3) ''LuhnValid'' of
                 Inl e \<Rightarrow> Inl e
               | Inr luhn_valid \<Rightarrow>
              (case getitem (HighAmount df3) ''HighAmount'' of
                 Inl e \<Rightarrow> Inl e
               | Inr high_amount \<Rightarrow>
              (case getitem (SuspiciousTime df3) ''SuspiciousTime'' of
                 Inl e \<Rightarrow> Inl e
               | Inr suspicious_time \<Rightarrow>
                   Inr (df3\<lparr>Fraudulent :=
                          Some (map2 (\<and>) luhn_valid
                                  (map2 (\<or>) high_amount suspicious_time))\<rparr>))))))"

text \<open>
  \<^verbatim>\<open>anomaly_detection\<close>. The features are the \<open>Amount\<close> column when there is one,
  the whole frame otherwise. Fitting the isolation forest (100 estimators,
  contamination 0.02, seed 42) and predicting on the same features is the library's
  work, taken as the parameter \<open>fit_predict\<close>: the labels, one per row, or the
  exception it raises. The label \<open>-1\<close> becomes \<open>True\<close>, any other \<open>False\<close>.
\<close>

datatype features = Amount_only "pyfloat list" | Whole_frame frame

definition anomaly_detection ::
  "(features \<Rightarrow> py_error + int list) \<Rightarrow> frame \<Rightarrow> py_error + frame" where
  "anomaly_detection fit_predict df =
     (let feats = (case Amount df of
                     Some amounts \<Rightarrow> Amount_only amounts
                   | None \<Rightarrow> Whole_frame df)
      in (case fit_predict feats of
            Inl e \<Rightarrow> Inl e
          | Inr labels \<Rightarrow>
              Inr (df\<lparr>Anomaly := Some (map (\<lambda>x. if x = - 1 then True else False) labels)\<rparr>)))"

section \<open>The validator as the specification words it\<close>

text \<open>
  The contract of \<open>is_valid_card\<close>, written from the specification and not from the
  code: strip the spaces; false if a remaining character is not a digit; otherwise
  reverse the digits, double those at odd positions (counting from 0) and take 9
  off a doubled value above 9, add everything up, and accept when the total is
  divisible by 10. A digit is a decimal digit of the character table, read with its
  value.
\<close>

definition spec_is_digit :: "(nat \<Rightarrow> numeric_type) \<Rightarrow> nat \<Rightarrow> bool" where
  "spec_is_digit ucd c =
     (case numeric_type_of ucd c of Decimal d \<Rightarrow> True | Digit \<Rightarrow> False | No_digit \<Rightarrow> False)"

definition spec_digit_value :: "(nat \<Rightarrow> numeric_type) \<Rightarrow> nat \<Rightarrow> int" where
  "spec_digit_value ucd c =
     (case numeric_type_of ucd c of Decimal d \<Rightarrow> d | Digit \<Rightarrow> 0 | No_digit \<Rightarrow> 0)"

definition spec_adjust :: "nat \<times> int \<Rightarrow> int" where
  "spec_adjust p =
     (case p of (i, d) \<Rightarrow>
        if odd i then (if 2 * d > 9 then 2 * d - 9 else 2 * d) else d)"

definition spec_luhn_total :: "int list \<Rightarrow> int" where
  "spec_luhn_total ds = sum_list (map spec_adjust (enumerate 0 (rev ds)))"

definition spec_is_valid_card :: "(nat \<Rightarrow> numeric_type) \<Rightarrow> pystr \<Rightarrow> bool" where
  "spec_is_valid_card ucd s =
     (let t = filter (\<lambda>c. c \<noteq> 32) s
      in if list_ex (\<lambda>c. \<not> spec_is_digit ucd c) t then False
         else spec_luhn_total (map (spec_digit_value ucd) t) mod 10 = 0)"

text \<open>The characters \<^verbatim>\<open>isdigit\<close> accepts and \<^verbatim>\<open>int\<close> does not: those of type Digit.\<close>

definition digit_only :: "(nat \<Rightarrow> numeric_type) \<Rightarrow> nat \<Rightarrow> bool" where
  "digit_only ucd c = (numeric_type_of ucd c = Digit)"

section \<open>Example inputs\<close>

text \<open>
  The entries of the character table that the examples look at: the Arabic-Indic
  digits (1632 to 1641) and the fullwidth digits (65296 to 65305) are decimal digits
  with the values 0 to 9; the superscripts zero and four to nine (8304, 8308 to 8313)
  and the circled digits one to nine (9312 to 9320) are of type Digit. No example
  looks at another code point from 256 on; the excerpt gives them as no digit.
\<close>

definition ucd_excerpt :: "nat \<Rightarrow> numeric_type" where
  "ucd_excerpt c =
     (if 1632 \<le> c \<and> c \<le> 1641 then Decimal (int c - 1632)
      else if 65296 \<le> c \<and> c \<le> 65305 then Decimal (int c - 65296)
      else if c = 8304 \<or> (8308 \<le> c \<and> c \<le> 8313) then Digit
      else if 9312 \<le> c \<and> c \<le> 9320 then Digit
      else No_digit)"

text \<open>The card number of the specification's examples, \<^verbatim>\<open>4539 1488 0343 6467\<close>, in
  Arabic-Indic digits with a space after every fourth.\<close>

definition arabic_indic_card :: pystr where
  "arabic_indic_card =
     [1636, 1637, 1635, 1641, 32, 1633, 1636, 1640, 1640, 32,
      1632, 1635, 1636, 1635, 32, 1638, 1636, 1638, 1639]"

text \<open>
  A batch of three transactions: the card number of the specification's examples,
  the same number with its last digit incremented, and the same number written with
  spaces; amounts above, above and at the threshold; the second transaction 30
  seconds after the first, the third 90 seconds after the second.
\<close>

definition example_batch :: frame where
  "example_batch =
     \<lparr>CardNumber = Some [PStr (str ''4539148803436467''), PStr (str ''4539148803436468''),
                         PStr (str ''4539 1488 0343 6467'')],
      Amount = Some [Fin 1500, Fin 2000, Fin 1000],
      Timestamp = Some [Some 0, Some 30000000000, Some 120000000000],
      LuhnValid = None, HighAmount = None, TimeGap = None, SuspiciousTime = None,
      Fraudulent = None, Anomaly = None, others = []\<rparr>"

text \<open>The same batch without its \<open>Timestamp\<close> column, and with the last two
  timestamps exchanged.\<close>

definition example_no_timestamp :: frame where
  "example_no_timestamp = example_batch\<lparr>Timestamp := None\<rparr>"


text \<open>A request body with the given card number and amount.\<close>

definition example_request :: "pyval \<Rightarrow> pyval \<Rightarrow> pyval" where
  "example_request card_number amount =
     PDict [(str ''CardNumber'', card_number), (str ''Amount'', amount)]"

section \<open>Properties of the Luhn check\<close>

lemma isdigit_char_iff:
  "isdigit_char ucd c \<longleftrightarrow> spec_is_digit ucd c \<or> digit_only ucd c"
  by (cases "numeric_type_of ucd c")
    (simp_all add: isdigit_char_def spec_is_digit_def digit_only_def)

lemma int_char_digit:
  "spec_is_digit ucd c \<Longrightarrow> int_char ucd c = Inr (spec_digit_value ucd c)"
  by (cases "numeric_type_of ucd c")
    (simp_all add: int_char_def spec_is_digit_def spec_digit_value_def)

text \<open>The loop, started at any index with any running total, adds the adjusted digits.\<close>

lemma luhn_loop_total:
  "list_all (spec_is_digit ucd) cs \<Longrightarrow>
   luhn_loop ucd idx acc cs =
     Inr (acc + sum_list (map spec_adjust (enumerate idx (map (spec_digit_value ucd) cs))))"
proof (induction cs arbitrary: idx acc)
  case Nil
  then show ?case by simp
next
  case (Cons c cs)
  then have c: "spec_is_digit ucd c" and cs: "list_all (spec_is_digit ucd) cs" by simp_all
  show ?case
    using Cons.IH [OF cs, of "Suc idx"]
    by (simp add: int_char_digit [OF c] spec_adjust_def Let_def odd_iff_mod_2_eq_one)
qed

lemma luhn_algorithm_digits:
  assumes "t = filter (\<lambda>c. c \<noteq> 32) s" and "t \<noteq> []" and "list_all (spec_is_digit ucd) t"
  shows "luhn_algorithm ucd s =
           Inr (spec_luhn_total (map (spec_digit_value ucd) t) mod 10 = 0)"
proof -
  have d: "isdigit ucd t"
    using assms(2,3) by (auto simp: isdigit_def list_all_iff isdigit_char_iff)
  have r: "list_all (spec_is_digit ucd) (rev t)"
    using assms(3) by (simp add: list_all_iff)
  have l: "luhn_loop ucd 0 0 (rev t) =
      Inr (0 + sum_list (map spec_adjust (enumerate 0 (map (spec_digit_value ucd) (rev t)))))"
    by (rule luhn_loop_total [OF r])
  have "luhn_algorithm ucd s =
      (if \<not> isdigit ucd t then Inr False
       else (case luhn_loop ucd 0 0 (rev t) of
               Inl e \<Rightarrow> Inl e
             | Inr total' \<Rightarrow> Inr (total' mod 10 = 0)))"
    unfolding luhn_algorithm_def Let_def assms(1) ..
  then show ?thesis
    using d by (simp add: l spec_luhn_total_def rev_map)
qed

lemma luhn_algorithm_empty:
  "filter (\<lambda>c. c \<noteq> 32) s = [] \<Longrightarrow> luhn_algorithm ucd s = Inr False"
  by (simp add: luhn_algorithm_def isdigit_def)

lemma luhn_algorithm_nondigit:
  assumes "\<exists>c \<in> set (filter (\<lambda>c. c \<noteq> 32) s). \<not> isdigit_char ucd c"
  shows "luhn_algorithm ucd s = Inr False"
  using assms by (auto simp: luhn_algorithm_def isdigit_def list_all_iff Let_def)

text \<open>A character of type Digit passes \<^verbatim>\<open>isdigit\<close> and then fails in \<^verbatim>\<open>int\<close>: the
  superscript two, whatever the table says from 256 on, and the circled one.\<close>

lemma luhn_algorithm_superscript_two: "luhn_algorithm ucd [178] = Inl ValueError"
  by (simp add: luhn_algorithm_def isdigit_def isdigit_char_def int_char_def
      numeric_type_of_def)

lemma luhn_algorithm_circled_one: "luhn_algorithm ucd_excerpt [9312] = Inl ValueError"
  by (simp add: luhn_algorithm_def isdigit_def isdigit_char_def int_char_def
      numeric_type_of_def ucd_excerpt_def)

text \<open>A card number in the decimal digits of another script is checked like the same
  number in ASCII digits.\<close>

lemma luhn_algorithm_arabic_indic: "luhn_algorithm ucd_excerpt arabic_indic_card = Inr True"
  by (simp add: luhn_algorithm_def isdigit_def isdigit_char_def int_char_def
      numeric_type_of_def ucd_excerpt_def arabic_indic_card_def)

text \<open>
  Claim C1, as amended. For every input string, whatever the character table from
  256 on: when nothing is left after the spaces are stripped, \<open>luhn_algorithm\<close>
  returns false; when something is left and none of it is a character of type Digit
  (one that \<^verbatim>\<open>isdigit\<close> accepts and \<^verbatim>\<open>int\<close> refuses), \<open>luhn_algorithm\<close> returns,
  without raising, what the specification's contract says with the decimal digits of
  every script as the digits: false if a remaining character is not a decimal digit,
  otherwise whether the doubled-and-adjusted sum of the reversed digit values is
  divisible by 10.
\<close>

theorem luhn_algorithm_refines_spec:
  "(filter (\<lambda>c. c \<noteq> 32) s = [] \<longrightarrow> luhn_algorithm ucd s = Inr False) \<and>
   (filter (\<lambda>c. c \<noteq> 32) s \<noteq> [] \<and>
    \<not> list_ex (digit_only ucd) (filter (\<lambda>c. c \<noteq> 32) s) \<longrightarrow>
      luhn_algorithm ucd s = Inr (spec_is_valid_card ucd s))"
proof (intro conjI impI)
  assume "filter (\<lambda>c. c \<noteq> 32) s = []"
  then show "luhn_algorithm ucd s = Inr False" by (rule luhn_algorithm_empty)
next
  define t where "t = filter (\<lambda>c. c \<noteq> 32) s"
  assume "filter (\<lambda>c. c \<noteq> 32) s \<noteq> [] \<and>
    \<not> list_ex (digit_only ucd) (filter (\<lambda>c. c \<noteq> 32) s)"
  then have ne: "t \<noteq> []" and ns: "\<forall>c \<in> set t. \<not> digit_only ucd c"
    by (auto simp: t_def list_ex_iff)
  show "luhn_algorithm ucd s = Inr (spec_is_valid_card ucd s)"
  proof (cases "list_all (spec_is_digit ucd) t")
    case True
    then have "\<not> list_ex (\<lambda>c. \<not> spec_is_digit ucd c) t"
      by (simp add: list_all_iff list_ex_iff)
    then show ?thesis
      using luhn_algorithm_digits [OF t_def ne True]
      by (simp add: spec_is_valid_card_def Let_def t_def)
  next
    case False
    then obtain c where c: "c \<in> set t" "\<not> spec_is_digit ucd c"
      by (auto simp: list_all_iff)
    with ns have "\<not> isdigit_char ucd c" by (simp add: isdigit_char_iff)
    with c have "luhn_algorithm ucd s = Inr False"
      using luhn_algorithm_nondigit [of s ucd] by (auto simp: t_def)
    moreover have "list_ex (\<lambda>c. \<not> spec_is_digit ucd c) t"
      using c by (auto simp: list_ex_iff)
    ultimately show ?thesis
      by (simp add: spec_is_valid_card_def Let_def t_def)
  qed
qed

text \<open>The card number of the specification's examples, written in Arabic-Indic digits
  with spaces: the contract accepts it and so does the code.\<close>

theorem luhn_algorithm_refines_spec_witness:
  "filter (\<lambda>c. c \<noteq> 32) arabic_indic_card \<noteq> [] \<and>
   \<not> list_ex (digit_only ucd_excerpt) (filter (\<lambda>c. c \<noteq> 32) arabic_indic_card) \<and>
   spec_is_valid_card ucd_excerpt arabic_indic_card \<and>
   luhn_algorithm ucd_excerpt arabic_indic_card = Inr True"
  using luhn_algorithm_refines_spec [of arabic_indic_card ucd_excerpt]
  by (simp add: digit_only_def spec_is_valid_card_def spec_luhn_total_def
      spec_is_digit_def spec_digit_value_def spec_adjust_def enumerate_eq_zip upt_rec
      numeric_type_of_def ucd_excerpt_def arabic_indic_card_def)

text \<open>
  Claim C1 as the specification states it fails on a string of one space: no
  character is left, so no character is a non-digit and the empty sum 0 is divisible
  by 10, and the contract says true; the code returns false.
\<close>

theorem luhn_algorithm_spec_counterexample:
  "spec_is_valid_card ucd_excerpt (str '' '') \<and>
   luhn_algorithm ucd_excerpt (str '' '') \<noteq> Inr (spec_is_valid_card ucd_excerpt (str '' ''))"
  by (simp add: luhn_algorithm_def isdigit_def spec_is_valid_card_def spec_luhn_total_def
      str_def)

text \<open>
  Claim C9, as amended. For the empty string and for any string consisting only of
  spaces, \<open>luhn_algorithm\<close> returns false: what is left after stripping is empty, and
  \<^verbatim>\<open>isdigit\<close> is false on the empty string.
\<close>

theorem luhn_algorithm_blank:
  "set s \<subseteq> {32} \<Longrightarrow> luhn_algorithm ucd s = Inr False"
proof -
  assume "set s \<subseteq> {32}"
  then have "filter (\<lambda>c. c \<noteq> 32) s = []"
    by (auto simp: filter_empty_conv)
  then show ?thesis by (rule luhn_algorithm_empty)
qed

theorem luhn_algorithm_blank_witness:
  "set (str ''   '') \<subseteq> {32} \<and> luhn_algorithm ucd_excerpt (str ''   '') = Inr False"
  using luhn_algorithm_blank [of "str ''   ''" ucd_excerpt] by (simp add: str_def)

text \<open>Claim C9 as stated fails on the empty string: the code does not return true.\<close>

theorem luhn_algorithm_empty_counterexample:
  "luhn_algorithm ucd_excerpt [] \<noteq> Inr True"
  by (simp add: luhn_algorithm_def isdigit_def)

section \<open>Properties of the conversion to float\<close>

lemma bit_length_0: "bit_length 0 = 0"
  by (simp add: bit_length.simps)

lemma bit_length_upper: "n < 2 ^ bit_length n"
proof (induction n rule: bit_length.induct)
  case (1 n)
  show ?case
  proof (cases "n = 0")
    case True
    then show ?thesis by (subst bit_length.simps) simp
  next
    case False
    with "1" have "n div 2 < 2 ^ bit_length (n div 2)" by simp
    then have "n < 2 * 2 ^ bit_length (n div 2)" by linarith
    with False show ?thesis by (subst bit_length.simps) simp
  qed
qed

lemma bit_length_lower: "n \<noteq> 0 \<Longrightarrow> 2 ^ (bit_length n - 1) \<le> n"
proof (induction n rule: bit_length.induct)
  case (1 n)
  show ?case
  proof (cases "n div 2 = 0")
    case True
    with "1.prems" have "n = 1" by linarith
    then show ?thesis by (subst bit_length.simps) (simp add: bit_length_0)
  next
    case False
    with "1" have "2 ^ (bit_length (n div 2) - 1) \<le> n div 2" by simp
    then have h: "2 * 2 ^ (bit_length (n div 2) - 1) \<le> n" by linarith
    from False have "bit_length (n div 2) \<noteq> 0" by (subst bit_length.simps) simp
    then have "2 * 2 ^ (bit_length (n div 2) - 1) = (2::nat) ^ bit_length (n div 2)"
      by (cases "bit_length (n div 2)") simp_all
    with h "1.prems" show ?thesis by (subst bit_length.simps) simp
  qed
qed

lemma bit_length_le_iff: "bit_length n \<le> k \<longleftrightarrow> n < 2 ^ k"
proof
  assume "bit_length n \<le> k"
  then have "(2::nat) ^ bit_length n \<le> 2 ^ k" by simp
  with bit_length_upper [of n] show "n < 2 ^ k" by linarith
next
  assume lt: "n < 2 ^ k"
  show "bit_length n \<le> k"
  proof (cases "n = 0")
    case True
    then show ?thesis by (simp add: bit_length.simps)
  next
    case False
    from bit_length_lower [OF False] lt have "(2::nat) ^ (bit_length n - 1) < 2 ^ k" by linarith
    then have "bit_length n - 1 < k" by simp
    then show ?thesis by linarith
  qed
qed

lemma float_of_int_exact:
  "\<bar>n\<bar> < 2 ^ 53 \<Longrightarrow> float_of_int n = Inr (Fin (of_int n))"
proof -
  assume "\<bar>n\<bar> < 2 ^ 53"
  then have "nat \<bar>n\<bar> < 2 ^ 53" by (simp add: nat_less_iff)
  then have "bit_length (nat \<bar>n\<bar>) \<le> 53" using bit_length_le_iff by blast
  then show ?thesis by (simp add: float_of_int_def Let_def)
qed

text \<open>The rounded magnitude of an integer of more than 53 bits keeps its bit length.\<close>

lemma rounded_lower:
  fixes m :: nat
  assumes k: "53 < bit_length m"
  defines "sh \<equiv> bit_length m - 53"
  defines "q0 \<equiv> m div 2 ^ sh"
  defines "q \<equiv> (if 2 ^ (sh - 1) < m mod 2 ^ sh \<or> (m mod 2 ^ sh = 2 ^ (sh - 1) \<and> odd q0) then q0 + 1 else q0)"
  shows "2 ^ (bit_length m - 1) \<le> q * 2 ^ sh"
proof -
  have m0: "m \<noteq> 0"
  proof
    assume "m = 0"
    with k show False by (simp add: bit_length_0)
  qed
  have e: "bit_length m - 1 = 52 + sh" using k by (simp add: sh_def)
  have "2 ^ (52 + sh) \<le> m"
    using bit_length_lower [OF m0] unfolding e .
  then have "2 ^ 52 * 2 ^ sh \<le> m"
    by (simp only: power_add)
  then have "2 ^ 52 \<le> q0"
    unfolding q0_def by (simp add: less_eq_div_iff_mult_less_eq)
  moreover have "q0 \<le> q" by (simp add: q_def)
  ultimately have "2 ^ 52 \<le> q" by linarith
  then have "2 ^ 52 * 2 ^ sh \<le> q * 2 ^ sh" by (rule mult_le_mono1)
  then show ?thesis by (simp only: e power_add)
qed

lemma float_of_int_overflow:
  assumes "2 ^ 1024 \<le> \<bar>n\<bar>"
  shows "float_of_int n = Inl OverflowError"
proof -
  define m where "m = nat \<bar>n\<bar>"
  have m: "2 ^ 1024 \<le> m" using assms by (simp add: m_def le_nat_iff)
  have "\<not> m < 2 ^ 1024" using m by simp
  then have k: "\<not> bit_length m \<le> 1024" using bit_length_le_iff by blast
  then have k53: "53 < bit_length m" by simp
  have "(2::nat) ^ 1024 \<le> 2 ^ (bit_length m - 1)"
    using k by (intro power_increasing) simp_all
  with rounded_lower [OF k53]
  have "2 ^ 1024 \<le> (if 2 ^ (bit_length m - 53 - 1) < m mod 2 ^ (bit_length m - 53) \<or>
           (m mod 2 ^ (bit_length m - 53) = 2 ^ (bit_length m - 53 - 1) \<and>
            odd (m div 2 ^ (bit_length m - 53)))
        then m div 2 ^ (bit_length m - 53) + 1 else m div 2 ^ (bit_length m - 53)) *
       2 ^ (bit_length m - 53)"
    by linarith
  then show ?thesis
    using k53 unfolding float_of_int_def Let_def m_def [symmetric]
    by simp
qed

text \<open>Rounding an integer to a double does not move it across the threshold.\<close>

lemma float_of_int_gt:
  assumes "float_of_int n = Inr a"
  shows "float_gt a 1000 \<longleftrightarrow> 1000 < n"
proof (cases "bit_length (nat \<bar>n\<bar>) \<le> 53")
  case True
  with assms have "a = Fin (of_int n)" by (simp add: float_of_int_def Let_def)
  then show ?thesis by simp
next
  case False
  define m where "m = nat \<bar>n\<bar>"
  define sh where "sh = bit_length m - 53"
  define q where "q = (if 2 ^ (sh - 1) < m mod 2 ^ sh \<or>
           (m mod 2 ^ sh = 2 ^ (sh - 1) \<and> odd (m div 2 ^ sh))
        then m div 2 ^ sh + 1 else m div 2 ^ sh)"
  from False have k: "53 < bit_length m" by (simp add: m_def)
  define V where "V = int (q * 2 ^ sh)"
  have a: "a = Fin (of_int (sgn n * V))"
    using assms False
    unfolding float_of_int_def Let_def m_def [symmetric] sh_def [symmetric] q_def [symmetric]
      V_def
    by (simp split: if_splits)
  have "(2::nat) ^ 53 \<le> 2 ^ (bit_length m - 1)"
    using k by (intro power_increasing) simp_all
  also have "\<dots> \<le> q * 2 ^ sh"
    using rounded_lower [OF k] by (simp only: q_def sh_def)
  finally have "int (2 ^ 53) \<le> int (q * 2 ^ sh)" by (simp only: of_nat_le_iff)
  then have V: "1000 < V" by (simp add: V_def)
  have "\<not> m < 2 ^ 53" using k bit_length_le_iff [of m 53] by simp
  then have n: "1000 < \<bar>n\<bar>" by (simp add: m_def nat_less_iff)
  show ?thesis
  proof (cases "0 < n")
    case True
    then have "sgn n * V = V" by simp
    with V True n show ?thesis by (simp add: a)
  next
    case False
    with n have neg: "n < 0" by linarith
    then have "sgn n * V = - V" by simp
    with V neg show ?thesis by (simp add: a)
  qed
qed

section \<open>Properties of the scoring endpoint\<close>

text \<open>When the view returns, the request was a \<^verbatim>\<open>dict\<close> with a string card number
  and a convertible amount, and the response is built from them.\<close>

lemma detect_fraud_Inr:
  assumes "detect_fraud ucd float_str data = Inr resp"
  shows "\<exists>kvs s a lv. data = PDict kvs \<and>
           dict_get data (str ''CardNumber'') = Inr (PStr s) \<and>
           (\<exists>v. dict_get data (str ''Amount'') = Inr v \<and> py_float float_str v = Inr a) \<and>
           luhn_algorithm ucd s = Inr lv \<and>
           resp = [(''CardNumber'', PStr s), (''Amount'', PFloat a),
                   (''LuhnValid'', PBool lv), (''HighAmount'', PBool (float_gt a 1000)),
                   (''Fraudulent'', PBool (lv \<and> float_gt a 1000))]"
proof -
  from assms obtain kvs where d: "data = PDict kvs"
    by (cases data) (simp_all add: detect_fraud_def)
  from assms obtain c where c: "dict_get data (str ''CardNumber'') = Inr c"
    by (auto simp: detect_fraud_def split: sum.splits)
  from assms obtain v where v: "dict_get data (str ''Amount'') = Inr v"
    by (auto simp: detect_fraud_def split: sum.splits)
  from assms c v obtain a where a: "py_float float_str v = Inr a"
    by (auto simp: detect_fraud_def split: sum.splits)
  from assms c v a obtain lv where lv: "luhn_call ucd c = Inr lv"
    by (auto simp: detect_fraud_def split: sum.splits)
  then obtain s where s: "c = PStr s" by (cases c) simp_all
  from assms c v a lv have "resp = [(''CardNumber'', c), (''Amount'', PFloat a),
                   (''LuhnValid'', PBool lv), (''HighAmount'', PBool (float_gt a 1000)),
                   (''Fraudulent'', PBool (lv \<and> float_gt a 1000))]"
    by (simp add: detect_fraud_def Let_def)
  with d c v a lv s show ?thesis by auto
qed

lemma detect_fraud_complete:
  assumes "map_of kvs (str ''CardNumber'') = Some (PStr s)"
      and "map_of kvs (str ''Amount'') = Some v"
      and "py_float float_str v = Inr a"
      and "luhn_algorithm ucd s = Inr lv"
  shows "detect_fraud ucd float_str (PDict kvs) =
           Inr [(''CardNumber'', PStr s), (''Amount'', PFloat a),
                (''LuhnValid'', PBool lv), (''HighAmount'', PBool (float_gt a 1000)),
                (''Fraudulent'', PBool (lv \<and> float_gt a 1000))]"
  using assms by (simp add: detect_fraud_def Let_def)

text \<open>The example requests.\<close>

lemma detect_fraud_example_request:
  assumes "py_float float_str v = Inr a" and "luhn_algorithm ucd s = Inr lv"
  shows "detect_fraud ucd float_str (example_request (PStr s) v) =
           Inr [(''CardNumber'', PStr s), (''Amount'', PFloat a),
                (''LuhnValid'', PBool lv), (''HighAmount'', PBool (float_gt a 1000)),
                (''Fraudulent'', PBool (lv \<and> float_gt a 1000))]"
  using assms by (simp add: detect_fraud_def example_request_def Let_def str_def)

lemma valid_card: "luhn_algorithm ucd (str ''4539148803436467'') = Inr True"
  by (simp add: luhn_algorithm_def isdigit_def isdigit_char_def int_char_def
      numeric_type_of_def str_def)

text \<open>
  Claim C3, as amended. For every online request that is a JSON object whose
  \<open>CardNumber\<close> is a string on which the Luhn check returns a verdict and whose
  \<open>Amount\<close> is a value \<^verbatim>\<open>float\<close> converts, the view returns exactly the fields
  \<open>CardNumber\<close>, \<open>Amount\<close>, \<open>LuhnValid\<close>, \<open>HighAmount\<close>, \<open>Fraudulent\<close>, in this order,
  with \<open>Amount\<close> the converted float, \<open>HighAmount\<close> its comparison with 1000 and
  \<open>Fraudulent\<close> the conjunction of \<open>LuhnValid\<close> and \<open>HighAmount\<close>.
\<close>

theorem detect_fraud_response:
  assumes "map_of kvs (str ''CardNumber'') = Some (PStr s)"
      and "map_of kvs (str ''Amount'') = Some v"
      and "py_float float_str v = Inr a"
      and "luhn_algorithm ucd s = Inr lv"
  shows "detect_fraud ucd float_str (PDict kvs) =
           Inr [(''CardNumber'', PStr s), (''Amount'', PFloat a),
                (''LuhnValid'', PBool lv), (''HighAmount'', PBool (float_gt a 1000)),
                (''Fraudulent'', PBool (lv \<and> float_gt a 1000))]"
  using assms by (rule detect_fraud_complete)

text \<open>The two requests of the specification: the valid card with the amounts 1500
  and 500.\<close>

theorem detect_fraud_response_witness:
  "detect_fraud ucd_excerpt Map.empty (example_request (PStr (str ''4539148803436467'')) (PInt 1500)) =
     Inr [(''CardNumber'', PStr (str ''4539148803436467'')), (''Amount'', PFloat (Fin 1500)),
          (''LuhnValid'', PBool True), (''HighAmount'', PBool True),
          (''Fraudulent'', PBool True)] \<and>
   detect_fraud ucd_excerpt Map.empty (example_request (PStr (str ''4539148803436467'')) (PInt 500)) =
     Inr [(''CardNumber'', PStr (str ''4539148803436467'')), (''Amount'', PFloat (Fin 500)),
          (''LuhnValid'', PBool True), (''HighAmount'', PBool False),
          (''Fraudulent'', PBool False)]"
  using
    detect_fraud_response [where ucd = ucd_excerpt and float_str = Map.empty
      and kvs = "[(str ''CardNumber'', PStr (str ''4539148803436467'')),
                  (str ''Amount'', PInt 1500)]"
      and s = "str ''4539148803436467''" and v = "PInt 1500" and a = "Fin 1500"
      and lv = True]
    detect_fraud_response [where ucd = ucd_excerpt and float_str = Map.empty
      and kvs = "[(str ''CardNumber'', PStr (str ''4539148803436467'')),
                  (str ''Amount'', PInt 500)]"
      and s = "str ''4539148803436467''" and v = "PInt 500" and a = "Fin 500"
      and lv = True]
  by (simp add: example_request_def float_of_int_exact valid_card)
    (simp_all add: str_def)

text \<open>
  Claim C3 as stated fails on two requests with a string card number and a numeric
  amount: the integer amount \<open>10 ^ 400\<close>, which \<^verbatim>\<open>float\<close> refuses with
  \<^verbatim>\<open>OverflowError\<close>, and the card number made of a superscript two, on which the
  Luhn check raises \<^verbatim>\<open>ValueError\<close>. Neither gets the five fields.
\<close>

theorem detect_fraud_response_counterexample:
  "detect_fraud ucd_excerpt Map.empty
     (example_request (PStr (str ''4539148803436467'')) (PInt (10 ^ 400))) = Inl OverflowError \<and>
   detect_fraud ucd_excerpt Map.empty (example_request (PStr [178]) (PInt 1500)) = Inl ValueError"
proof -
  have "float_of_int (10 ^ 400) = Inl OverflowError"
    by (rule float_of_int_overflow) simp
  then show ?thesis
    by (simp add: detect_fraud_def example_request_def float_of_int_exact
        luhn_algorithm_superscript_two str_def)
qed

text \<open>
  Claim C7, as amended. For every online request that is a JSON object whose
  \<open>Amount\<close> is missing, null, or a string that \<^verbatim>\<open>float\<close> rejects, the view raises
  \<^verbatim>\<open>TypeError\<close> or \<^verbatim>\<open>ValueError\<close> and builds no response of its own; the
  exception leaves the view and the caller receives the framework's 500 response,
  a server error and not a client error.
\<close>

theorem detect_fraud_bad_amount:
  assumes "map_of kvs (str ''Amount'') = None \<or> map_of kvs (str ''Amount'') = Some PNone \<or>
     (\<exists>s. map_of kvs (str ''Amount'') = Some (PStr s) \<and> float_str s = None)"
  shows "(detect_fraud ucd float_str (PDict kvs) = Inl TypeError \<or>
          detect_fraud ucd float_str (PDict kvs) = Inl ValueError) \<and>
         flask_dispatch (detect_fraud ucd float_str (PDict kvs)) = Internal_server_error \<and>
         status_code (flask_dispatch (detect_fraud ucd float_str (PDict kvs))) = 500 \<and>
         \<not> is_client_error (flask_dispatch (detect_fraud ucd float_str (PDict kvs)))"
  using assms by (auto simp: detect_fraud_def is_client_error_def)

theorem detect_fraud_bad_amount_witness:
  "map_of [(str ''CardNumber'', PStr (str ''4539148803436467''))] (str ''Amount'') = None \<and>
   detect_fraud ucd_excerpt Map.empty
     (PDict [(str ''CardNumber'', PStr (str ''4539148803436467''))]) = Inl TypeError \<and>
   status_code (flask_dispatch
     (detect_fraud ucd_excerpt Map.empty
        (PDict [(str ''CardNumber'', PStr (str ''4539148803436467''))]))) = 500"
  using detect_fraud_bad_amount [where ucd = ucd_excerpt and float_str = Map.empty
      and kvs = "[(str ''CardNumber'', PStr (str ''4539148803436467''))]"]
  by (simp add: detect_fraud_def str_def)

text \<open>
  Claim C7 as stated fails on the specification's own malformed request, the amount
  \<^verbatim>\<open>"abc"\<close>: the view raises \<^verbatim>\<open>ValueError\<close> and the response is not a client error.
\<close>

theorem detect_fraud_bad_amount_counterexample:
  "detect_fraud ucd_excerpt Map.empty
     (example_request (PStr (str ''4539148803436467'')) (PStr (str ''abc''))) = Inl ValueError \<and>
   \<not> is_client_error (flask_dispatch (detect_fraud ucd_excerpt Map.empty
     (example_request (PStr (str ''4539148803436467'')) (PStr (str ''abc'')))))"
  by (simp add: detect_fraud_def example_request_def is_client_error_def str_def)

section \<open>Properties of the batch rules\<close>


lemma diff_first: "stamps \<noteq> [] \<Longrightarrow> diff stamps ! 0 = None"
  by (cases stamps) simp_all


lemma getitem_Inr: "getitem col name = Inr xs \<longleftrightarrow> col = Some xs"
  by (simp add: getitem_def split: option.splits)

text \<open>What a returned frame holds: line 97 has found its three columns, and the
  columns written from \<open>Amount\<close> and \<open>Timestamp\<close> are the ones it has read.\<close>

lemma rule_based_detection_Inr:
  assumes "rule_based_detection ucd df = Inr df'"
  shows "\<exists>lv ha st.
           LuhnValid df' = Some lv \<and> HighAmount df' = Some ha \<and>
           SuspiciousTime df' = Some st \<and>
           Fraudulent df' = Some (map2 (\<and>) lv (map2 (\<or>) ha st)) \<and>
           (\<forall>amounts. Amount df = Some amounts \<longrightarrow>
              ha = map (\<lambda>a. float_gt a 1000) amounts) \<and>
           (\<forall>stamps. Timestamp df = Some stamps \<longrightarrow>
              st = map (\<lambda>g. float_lt g 60) (map total_seconds (diff stamps)))"
  using assms
  by (auto simp: rule_based_detection_def Let_def getitem_def
      split: option.splits sum.splits)

text \<open>With the three input columns present and every card number checkable, the
  call returns.\<close>

lemma rule_based_detection_complete:
  assumes "CardNumber df = Some cards" and "apply_luhn ucd cards = Inr lv"
      and "Amount df = Some amounts" and "Timestamp df = Some stamps"
  shows "rule_based_detection ucd df =
    Inr (df\<lparr>LuhnValid := Some lv,
            HighAmount := Some (map (\<lambda>a. float_gt a 1000) amounts),
            TimeGap := Some (map total_seconds (diff stamps)),
            SuspiciousTime := Some (map (\<lambda>g. float_lt g 60) (map total_seconds (diff stamps))),
            Fraudulent := Some (map2 (\<and>) lv
               (map2 (\<or>) (map (\<lambda>a. float_gt a 1000) amounts)
                  (map (\<lambda>g. float_lt g 60) (map total_seconds (diff stamps)))))\<rparr>)"
  using assms by (simp add: rule_based_detection_def Let_def getitem_def)

text \<open>Without a \<open>Timestamp\<close> column, and no \<open>SuspiciousTime\<close> column left from an
  earlier run, the call never returns a frame.\<close>

lemma rule_based_detection_no_timestamp:
  assumes "Timestamp df = None" and "SuspiciousTime df = None"
  shows "rule_based_detection ucd df \<noteq> Inr df'"
  using assms
  by (auto simp: rule_based_detection_def Let_def getitem_def
      split: option.splits sum.splits)

text \<open>The example batches, evaluated.\<close>

lemma example_batch_rules:
  "rule_based_detection ucd_excerpt example_batch =
   Inr (example_batch\<lparr>LuhnValid := Some [True, False, True],
            HighAmount := Some [True, True, False],
            TimeGap := Some [NaN, Fin 30, Fin 90],
            SuspiciousTime := Some [False, True, False],
            Fraudulent := Some [True, False, False]\<rparr>)"
  by (simp add: rule_based_detection_def example_batch_def Let_def getitem_def
      luhn_algorithm_def isdigit_def isdigit_char_def int_char_def
      numeric_type_of_def str_def)


lemma invalid_card: "luhn_algorithm ucd (str ''4539148803436468'') = Inr False"
  by (simp add: luhn_algorithm_def isdigit_def isdigit_char_def int_char_def
      numeric_type_of_def str_def)

text \<open>
  Claim C2. In the batch path and in the online path, \<open>Fraudulent\<close> is false wherever
  \<open>LuhnValid\<close> is false, whatever \<open>HighAmount\<close> and \<open>SuspiciousTime\<close> are: in every
  frame \<open>rule_based_detection\<close> returns, a row whose \<open>LuhnValid\<close> is false has
  \<open>Fraudulent\<close> false, and in every response of \<open>detect_fraud\<close> a false \<open>LuhnValid\<close>
  comes with a false \<open>Fraudulent\<close>.
\<close>

theorem fraudulent_gated_by_luhn:
  "(rule_based_detection ucd df = Inr df' \<longrightarrow>
      (\<exists>lv fr. LuhnValid df' = Some lv \<and> Fraudulent df' = Some fr \<and>
         length fr \<le> length lv \<and> (\<forall>i < length fr. \<not> lv ! i \<longrightarrow> \<not> fr ! i))) \<and>
   (detect_fraud ucd float_str data = Inr resp \<longrightarrow>
      (\<exists>lv fr. map_of resp ''LuhnValid'' = Some (PBool lv) \<and>
         map_of resp ''Fraudulent'' = Some (PBool fr) \<and> (\<not> lv \<longrightarrow> \<not> fr)))"
proof (intro conjI impI)
  assume "rule_based_detection ucd df = Inr df'"
  from rule_based_detection_Inr [OF this] obtain lv ha st where
    lv: "LuhnValid df' = Some lv" and
    fr: "Fraudulent df' = Some (map2 (\<and>) lv (map2 (\<or>) ha st))"
    by blast
  have "\<forall>i < length (map2 (\<and>) lv (map2 (\<or>) ha st)).
          \<not> lv ! i \<longrightarrow> \<not> map2 (\<and>) lv (map2 (\<or>) ha st) ! i"
    by simp
  moreover have "length (map2 (\<and>) lv (map2 (\<or>) ha st)) \<le> length lv" by simp
  ultimately show "\<exists>lv fr. LuhnValid df' = Some lv \<and> Fraudulent df' = Some fr \<and>
         length fr \<le> length lv \<and> (\<forall>i < length fr. \<not> lv ! i \<longrightarrow> \<not> fr ! i)"
    using lv fr by blast
next
  assume "detect_fraud ucd float_str data = Inr resp"
  from detect_fraud_Inr [OF this] obtain s a lv where
    "resp = [(''CardNumber'', PStr s), (''Amount'', PFloat a),
             (''LuhnValid'', PBool lv), (''HighAmount'', PBool (float_gt a 1000)),
             (''Fraudulent'', PBool (lv \<and> float_gt a 1000))]"
    by blast
  then show "\<exists>lv fr. map_of resp ''LuhnValid'' = Some (PBool lv) \<and>
         map_of resp ''Fraudulent'' = Some (PBool fr) \<and> (\<not> lv \<longrightarrow> \<not> fr)"
    by simp
qed

text \<open>The second row of the example batch has a failing checksum, a high amount and a
  short gap, and is not flagged; so is the online request with the failing card
  number and the amount 1500.\<close>

theorem fraudulent_gated_by_luhn_witness:
  "rule_based_detection ucd_excerpt example_batch =
     Inr (example_batch\<lparr>LuhnValid := Some [True, False, True],
            HighAmount := Some [True, True, False],
            TimeGap := Some [NaN, Fin 30, Fin 90],
            SuspiciousTime := Some [False, True, False],
            Fraudulent := Some [True, False, False]\<rparr>) \<and>
   detect_fraud ucd_excerpt Map.empty (example_request (PStr (str ''4539148803436468'')) (PInt 1500)) =
     Inr [(''CardNumber'', PStr (str ''4539148803436468'')), (''Amount'', PFloat (Fin 1500)),
          (''LuhnValid'', PBool False), (''HighAmount'', PBool True),
          (''Fraudulent'', PBool False)]"
  using fraudulent_gated_by_luhn [where ucd = ucd_excerpt and df = example_batch
      and df' = "example_batch\<lparr>LuhnValid := Some [True, False, True],
            HighAmount := Some [True, True, False],
            TimeGap := Some [NaN, Fin 30, Fin 90],
            SuspiciousTime := Some [False, True, False],
            Fraudulent := Some [True, False, False]\<rparr>"
      and float_str = Map.empty
      and data = "example_request (PStr (str ''4539148803436468'')) (PInt 1500)"
      and resp = "[(''CardNumber'', PStr (str ''4539148803436468'')), (''Amount'', PFloat (Fin 1500)),
          (''LuhnValid'', PBool False), (''HighAmount'', PBool True),
          (''Fraudulent'', PBool False)]"]
  by (simp add: example_batch_rules float_of_int_exact invalid_card
      detect_fraud_example_request [where a = "Fin 1500" and lv = False])









text \<open>
  Claim C6 says that a batch with \<open>CardNumber\<close> and \<open>Amount\<close> columns and no
  \<open>Timestamp\<close> column goes through \<open>rule_based_detection\<close> without error and gets its
  \<open>Fraudulent\<close> column. On the example batch without \<open>Timestamp\<close> the call ends in
  \<^verbatim>\<open>KeyError: 'SuspiciousTime'\<close>: the third rule is skipped, and line 97 reads the
  column the rule would have written.
\<close>

theorem rule_based_detection_without_timestamp:
  "CardNumber example_no_timestamp =
     Some [PStr (str ''4539148803436467''), PStr (str ''4539148803436468''),
           PStr (str ''4539 1488 0343 6467'')] \<and>
   Amount example_no_timestamp = Some [Fin 1500, Fin 2000, Fin 1000] \<and>
   Timestamp example_no_timestamp = None \<and>
   rule_based_detection ucd_excerpt example_no_timestamp = Inl (KeyError ''SuspiciousTime'')"
  by (simp add: rule_based_detection_def example_batch_def example_no_timestamp_def
      Let_def getitem_def luhn_algorithm_def isdigit_def isdigit_char_def int_char_def
      numeric_type_of_def str_def)

section \<open>Properties of the anomaly scoring\<close>

text \<open>
  Claim C8. For every batch, \<open>anomaly_detection\<close> writes the \<open>Anomaly\<close> column, true
  where the label is \<open>-1\<close> and false elsewhere, whenever the forest gives its labels,
  and every frame it returns has all other columns as they were; in particular
  \<open>Fraudulent\<close> is the one the rules computed.
\<close>

theorem anomaly_detection_frame:
  "(fit_predict (case Amount df of Some amounts \<Rightarrow> Amount_only amounts
                                 | None \<Rightarrow> Whole_frame df) = Inr labels \<longrightarrow>
      anomaly_detection fit_predict df =
        Inr (df\<lparr>Anomaly := Some (map (\<lambda>x. x = - 1) labels)\<rparr>)) \<and>
   (anomaly_detection fit_predict df = Inr df' \<longrightarrow>
      (\<exists>labels. fit_predict (case Amount df of Some amounts \<Rightarrow> Amount_only amounts
                                 | None \<Rightarrow> Whole_frame df) = Inr labels \<and>
         Anomaly df' = Some (map (\<lambda>x. x = - 1) labels)) \<and>
      CardNumber df' = CardNumber df \<and> Amount df' = Amount df \<and>
      Timestamp df' = Timestamp df \<and> LuhnValid df' = LuhnValid df \<and>
      HighAmount df' = HighAmount df \<and> TimeGap df' = TimeGap df \<and>
      SuspiciousTime df' = SuspiciousTime df \<and> Fraudulent df' = Fraudulent df \<and>
      others df' = others df)"
  by (auto simp: anomaly_detection_def Let_def split: sum.splits)

text \<open>The example batch after the rules, with the second record labelled an outlier:
  the first record is fraudulent and no anomaly, the second an anomaly and not
  fraudulent.\<close>

theorem anomaly_detection_frame_witness:
  "anomaly_detection (\<lambda>feats. Inr [1, - 1, 1])
     (example_batch\<lparr>LuhnValid := Some [True, False, True],
            HighAmount := Some [True, True, False],
            TimeGap := Some [NaN, Fin 30, Fin 90],
            SuspiciousTime := Some [False, True, False],
            Fraudulent := Some [True, False, False]\<rparr>) =
   Inr (example_batch\<lparr>LuhnValid := Some [True, False, True],
            HighAmount := Some [True, True, False],
            TimeGap := Some [NaN, Fin 30, Fin 90],
            SuspiciousTime := Some [False, True, False],
            Fraudulent := Some [True, False, False],
            Anomaly := Some [False, True, False]\<rparr>)"
  using anomaly_detection_frame [of "\<lambda>feats. Inr [1, - 1, 1]"
      "example_batch\<lparr>LuhnValid := Some [True, False, True],
            HighAmount := Some [True, True, False],
            TimeGap := Some [NaN, Fin 30, Fin 90],
            SuspiciousTime := Some [False, True, False],
            Fraudulent := Some [True, False, False]\<rparr>"
      "[1, - 1, 1]"
      "example_batch\<lparr>LuhnValid := Some [True, False, True],
            HighAmount := Some [True, True, False],
            TimeGap := Some [NaN, Fin 30, Fin 90],
            SuspiciousTime := Some [False, True, False],
            Fraudulent := Some [True, False, False],
            Anomaly := Some [False, True, False]\<rparr>"]
  by simp

end
